theory Spec2Isabelle
  imports Complex_Main "HOL-Library.Sublist"
begin

section \<open>Interest discovery: data model\<close>

text \<open>
  The development follows \<^verbatim>\<open>src/task/content_generation/interest_discovery.py\<close>.
  Python strings are \<open>string\<close> (bytes of the UTF-8 encoding; the characters that
  \<^verbatim>\<open>str.format\<close> inspects are ASCII, and an ASCII byte never occurs inside a multi-byte
  sequence), Python integers are \<open>int\<close>, \<^verbatim>\<open>Optional[int]\<close> is \<open>int option\<close>. A float is
  only stored and handed on by this component, never computed with; it is carried as the
  real number its literal denotes.
\<close>

subsection \<open>Exceptions\<close>

text \<open>
  Every exception that can leave \<^verbatim>\<open>discover\<close> or \<^verbatim>\<open>adiscover\<close> is a value:
  \<^item> \<open>FormatError\<close>: \<^verbatim>\<open>str.format\<close> raised, which is a \<^verbatim>\<open>ValueError\<close> for a malformed
    template and a \<^verbatim>\<open>KeyError\<close> or \<^verbatim>\<open>IndexError\<close> for a replacement field that is not one
    of the two keyword arguments;
  \<^item> \<open>ValidationError fs\<close>: a container was constructed without its required fields \<open>fs\<close>;
  \<^item> \<open>Raised x\<close>: any other exception, \<open>x\<close> standing for its class and message; the
    language model may raise these and the three above alike;
  \<^item> \<open>Unmodelled\<close> is not a Python exception: the template uses replacement-field syntax
    outside the fragment of \<^verbatim>\<open>str.format\<close> modelled here (a conversion \<^verbatim>\<open>!\<close>, a format
    specification \<^verbatim>\<open>:\<close>, an attribute \<^verbatim>\<open>.\<close> or an index \<^verbatim>\<open>[\<close>), and nothing is said
    about what Python does with it.
\<close>

datatype exn = FormatError | ValidationError "string list" | Raised string | Unmodelled

subsection \<open>Containers\<close>

record InterestDiscoveryParams =
  field_of_topic :: string
  "keywords" :: string
  max_tokens :: "int option"
  temperature :: real

record InterestDiscoveryResult =
  field_of_topic :: string
  "keywords" :: string
  interest_analysis :: string
  input_tokens :: int
  output_tokens :: int

text \<open>
  Modelled from the spec: \<^verbatim>\<open>LmGentxtParams\<close> and \<^verbatim>\<open>LmGentxtResult\<close> (\<^verbatim>\<open>src.lib.model.txt\<close>) are
  not among the sources. The specification gives the request as
  \<^verbatim>\<open>{systemPrompt: string, prompt: string, maxNewTokens: optional integer, temperature: float}\<close>
  and the response as \<^verbatim>\<open>{outputText: string, inputTokens: integer, outputTokens: integer}\<close>;
  the field names are those the source uses.
\<close>

record LmGentxtParams =
  system_prompt :: string
  prompt :: string
  max_new_tokens :: "int option"
  temperature :: real

record LmGentxtResult =
  "output" :: string
  input_tokens :: int
  output_tokens :: int

text \<open>
  Modelled from the spec: \<^verbatim>\<open>LmBasis\<close> (\<^verbatim>\<open>src.lib.model.txt.lm_basis\<close>) is not among the
  sources. It is the capability with a blocking and a non-blocking generation operation.
  Each operation may depend on and change a state \<open>'s\<close> of the model (or of the world
  behind it), and either returns a response or raises.
\<close>

record 's LmBasis =
  gentxt :: "LmGentxtParams \<Rightarrow> 's \<Rightarrow> (exn + LmGentxtResult) \<times> 's"
  agentxt :: "LmGentxtParams \<Rightarrow> 's \<Rightarrow> (exn + LmGentxtResult) \<times> 's"

text \<open>
  Modelled from the spec: the two constants of \<^verbatim>\<open>.prompts\<close> are not among the sources;
  they are a parameter of everything below.
\<close>

record prompts =
  INTEREST_DISCOVERY_PROMPT_TEMPLATE :: string
  INTEREST_DISCOVERY_SYSTEM_PROMPT :: string

subsection \<open>Construction of the containers\<close>

text \<open>
  Modelled from the spec: the base class \<^verbatim>\<open>DataCore\<close> (\<^verbatim>\<open>src.core\<close>) is not among the
  sources. The specification calls the two containers validated bundles; the field
  declarations of the source give each field a type, two of them a default, and no
  constraint on the value. Construction therefore fails exactly when a field without a
  default is not supplied, with one \<open>ValidationError\<close> naming all of them in declaration
  order, and otherwise stores each supplied value as it is. An argument of type
  \<open>'a option\<close> is \<open>None\<close> when the keyword is not supplied; for \<^verbatim>\<open>max_tokens\<close>, whose type
  is \<^verbatim>\<open>Optional[int]\<close>, \<open>Some None\<close> is an explicit \<^verbatim>\<open>None\<close>.
\<close>

definition missing :: "(string \<times> bool) list \<Rightarrow> string list" where
  "missing fs = map fst (filter (\<lambda>(n, supplied). \<not> supplied) fs)"

definition InterestDiscoveryParams_init ::
  "string option \<Rightarrow> string option \<Rightarrow> int option option \<Rightarrow> real option
    \<Rightarrow> exn + InterestDiscoveryParams" where
  "InterestDiscoveryParams_init a_field_of_topic a_keywords a_max_tokens a_temperature =
     (case (a_field_of_topic, a_keywords) of
        (Some f, Some k) \<Rightarrow>
          Inr \<lparr>InterestDiscoveryParams.field_of_topic = f,
               InterestDiscoveryParams.keywords = k,
               max_tokens = (case a_max_tokens of None \<Rightarrow> Some 4000 | Some m \<Rightarrow> m),
               InterestDiscoveryParams.temperature =
                 (case a_temperature of None \<Rightarrow> 0.7 | Some t \<Rightarrow> t)\<rparr>
      | _ \<Rightarrow>
          Inl (ValidationError (missing
            [(''field_of_topic'', a_field_of_topic \<noteq> None),
             (''keywords'', a_keywords \<noteq> None)])))"

definition InterestDiscoveryResult_init ::
  "string option \<Rightarrow> string option \<Rightarrow> string option \<Rightarrow> int option \<Rightarrow> int option
    \<Rightarrow> exn + InterestDiscoveryResult" where
  "InterestDiscoveryResult_init a_field_of_topic a_keywords a_interest_analysis
       a_input_tokens a_output_tokens =
     (case (a_field_of_topic, a_keywords, a_interest_analysis, a_input_tokens,
            a_output_tokens) of
        (Some f, Some k, Some a, Some i, Some o') \<Rightarrow>
          Inr \<lparr>InterestDiscoveryResult.field_of_topic = f,
               InterestDiscoveryResult.keywords = k,
               interest_analysis = a,
               InterestDiscoveryResult.input_tokens = i,
               InterestDiscoveryResult.output_tokens = o'\<rparr>
      | _ \<Rightarrow>
          Inl (ValidationError (missing
            [(''field_of_topic'', a_field_of_topic \<noteq> None),
             (''keywords'', a_keywords \<noteq> None),
             (''interest_analysis'', a_interest_analysis \<noteq> None),
             (''input_tokens'', a_input_tokens \<noteq> None),
             (''output_tokens'', a_output_tokens \<noteq> None)])))"

section \<open>Rendering the prompt\<close>

text \<open>
  \<^verbatim>\<open>INTEREST_DISCOVERY_PROMPT_TEMPLATE.format(field_of_topic=..., keywords=...)\<close> reads the
  template from left to right. A doubled brace is one literal brace; a single \<^verbatim>\<open>}\<close>, or a
  \<^verbatim>\<open>{\<close> at the very end, is an error; any other \<^verbatim>\<open>{\<close> opens a replacement field, whose
  name runs up to the next \<^verbatim>\<open>}\<close>. The field is replaced by the keyword argument of that
  name, and the inserted value is not read again. There are no positional arguments, so
  an empty or numeric name fails as every name other than the two keywords does.
\<close>

datatype replacement_field = Field string string | Malformed | Outside

text \<open>
  \<open>parse_field cs\<close> reads a field name from the text after the opening brace:
  \<open>Field name rest\<close> when the name is closed by \<^verbatim>\<open>}\<close>, with \<open>rest\<close> the text after it;
  \<open>Malformed\<close> when the template ends first or another \<^verbatim>\<open>{\<close> occurs in the name;
  \<open>Outside\<close> when the field leaves the modelled fragment.
\<close>

fun parse_field :: "string \<Rightarrow> replacement_field" where
  "parse_field [] = Malformed"
| "parse_field (c # cs) =
     (if c = CHR ''}'' then Field [] cs
      else if c = CHR ''{'' then Malformed
      else if c = CHR ''['' \<or> c = CHR '':'' \<or> c = CHR ''!'' \<or> c = CHR ''.'' then Outside
      else (case parse_field cs of
              Field name rest \<Rightarrow> Field (c # name) rest
            | Malformed \<Rightarrow> Malformed
            | Outside \<Rightarrow> Outside))"

text \<open>The keyword arguments of the call: exactly the two names the source passes.\<close>

definition kwargs :: "string \<Rightarrow> string \<Rightarrow> string \<Rightarrow> string option" where
  "kwargs f k name =
     (if name = ''field_of_topic'' then Some f
      else if name = ''keywords'' then Some k
      else None)"

function format :: "string \<Rightarrow> string \<Rightarrow> string \<Rightarrow> exn + string" where
  "format [] f k = Inr []"
| "format (c # cs) f k =
     (if c = CHR ''}'' then
        (case cs of
           [] \<Rightarrow> Inl FormatError
         | d # ds \<Rightarrow>
             if d = CHR ''}'' then
               (case format ds f k of Inl e \<Rightarrow> Inl e | Inr s \<Rightarrow> Inr (c # s))
             else Inl FormatError)
      else if c = CHR ''{'' then
        (case cs of
           [] \<Rightarrow> Inl FormatError
         | d # ds \<Rightarrow>
             if d = CHR ''{'' then
               (case format ds f k of Inl e \<Rightarrow> Inl e | Inr s \<Rightarrow> Inr (c # s))
             else
               (case parse_field cs of
                  Malformed \<Rightarrow> Inl FormatError
                | Outside \<Rightarrow> Inl Unmodelled
                | Field name rest \<Rightarrow>
                    (case kwargs f k name of
                       None \<Rightarrow> Inl FormatError
                     | Some v \<Rightarrow>
                         (case format rest f k of
                            Inl e \<Rightarrow> Inl e
                          | Inr s \<Rightarrow> Inr (v @ s)))))
      else (case format cs f k of Inl e \<Rightarrow> Inl e | Inr s \<Rightarrow> Inr (c # s)))"
  by pat_completeness auto
termination
proof -
  have shorter: "length rest < length cs"
    if "parse_field cs = Field name rest" for cs name rest
    using that
    by (induction cs arbitrary: name) (auto split: if_splits replacement_field.splits)
  show ?thesis
    by (relation "measure (\<lambda>(t, f, k). length t)")
       (auto simp del: parse_field.simps dest!: shorter)
qed

section \<open>The logger\<close>

text \<open>
  Modelled from the spec: \<^verbatim>\<open>src.log\<close> is not among the sources. The specification has it
  as a sink of levelled events tagged with a component name, with no effect on the caller.
  An event is its level, the component the logger was bound to, and the message; the sink
  is the list of events so far. \<^verbatim>\<open>str\<close> of an integer, which the last message of a call
  interpolates, is its decimal numeral.
\<close>

datatype level = INFO | SUCCESS

type_synonym event = "level \<times> string \<times> string"

record 's world =
  model_state :: 's
  sink :: "event list"

definition emit :: "level \<Rightarrow> string \<Rightarrow> string \<Rightarrow> 's world \<Rightarrow> 's world" where
  "emit l component msg w = w\<lparr>sink := sink w @ [(l, component, msg)]\<rparr>"

fun str_nat :: "nat \<Rightarrow> string" where
  "str_nat n =
     (if n < 10 then [char_of (48 + n)]
      else str_nat (n div 10) @ [char_of (48 + n mod 10)])"

definition str_int :: "int \<Rightarrow> string" where
  "str_int i = (if i < 0 then CHR ''-'' # str_nat (nat (- i)) else str_nat (nat i))"

section \<open>The component\<close>

record 's InterestDiscovery =
  model :: "'s LmBasis"
  logger :: string

definition InterestDiscovery_init ::
  "'s LmBasis \<Rightarrow> string option \<Rightarrow> 's InterestDiscovery" where
  "InterestDiscovery_init m a_log_name =
     \<lparr>model = m,
      logger = (case a_log_name of None \<Rightarrow> ''interest_discovery'' | Some n \<Rightarrow> n)\<rparr>"

text \<open>
  \<^verbatim>\<open>discover\<close>, statement by statement: log the start, render the prompt, build the
  generation parameters, call the model, build the result, log twice, return. An
  exception ends the call where it is raised, with the events and the model state
  reached so far.
\<close>

definition discover ::
  "prompts \<Rightarrow> 's InterestDiscovery \<Rightarrow> InterestDiscoveryParams \<Rightarrow> 's world
    \<Rightarrow> (exn + InterestDiscoveryResult) \<times> 's world" where
  "discover P self params w0 =
     (let w1 = emit INFO (logger self)
                 (''Starting interest discovery for field: ''
                    @ InterestDiscoveryParams.field_of_topic params
                    @ '', keywords: '' @ InterestDiscoveryParams.keywords params) w0
      in (case format (INTEREST_DISCOVERY_PROMPT_TEMPLATE P)
                (InterestDiscoveryParams.field_of_topic params)
                (InterestDiscoveryParams.keywords params) of
            Inl e \<Rightarrow> (Inl e, w1)
          | Inr rendered \<Rightarrow>
             (let llm_params =
                    \<lparr>system_prompt = INTEREST_DISCOVERY_SYSTEM_PROMPT P,
                     prompt = rendered,
                     max_new_tokens = max_tokens params,
                     LmGentxtParams.temperature = InterestDiscoveryParams.temperature params\<rparr>
              in (case gentxt (model self) llm_params (model_state w1) of
                    (Inl e, s) \<Rightarrow> (Inl e, w1\<lparr>model_state := s\<rparr>)
                  | (Inr llm_result, s) \<Rightarrow>
                     (let w2 = w1\<lparr>model_state := s\<rparr>
                      in (case InterestDiscoveryResult_init
                                 (Some (InterestDiscoveryParams.field_of_topic params))
                                 (Some (InterestDiscoveryParams.keywords params))
                                 (Some (output llm_result))
                                 (Some (LmGentxtResult.input_tokens llm_result))
                                 (Some (LmGentxtResult.output_tokens llm_result)) of
                            Inl e \<Rightarrow> (Inl e, w2)
                          | Inr result \<Rightarrow>
                             (let w3 = emit SUCCESS (logger self)
                                         (''Interest discovery completed for: ''
                                            @ InterestDiscoveryParams.field_of_topic params) w2;
                                  w4 = emit INFO (logger self)
                                         (''Generated ''
                                            @ str_int (InterestDiscoveryResult.output_tokens result)
                                            @ '' tokens of analysis'') w3
                              in (Inr result, w4))))))))"

text \<open>
  \<^verbatim>\<open>adiscover\<close> is the same text with \<^verbatim>\<open>await self.model.agentxt\<close> for the call and
  two other messages. The coroutine has one suspension point, the awaited call; what
  other tasks do while it is suspended is part of what \<open>agentxt\<close> does to the state.
\<close>

definition adiscover ::
  "prompts \<Rightarrow> 's InterestDiscovery \<Rightarrow> InterestDiscoveryParams \<Rightarrow> 's world
    \<Rightarrow> (exn + InterestDiscoveryResult) \<times> 's world" where
  "adiscover P self params w0 =
     (let w1 = emit INFO (logger self)
                 (''Starting async interest discovery for field: ''
                    @ InterestDiscoveryParams.field_of_topic params
                    @ '', keywords: '' @ InterestDiscoveryParams.keywords params) w0
      in (case format (INTEREST_DISCOVERY_PROMPT_TEMPLATE P)
                (InterestDiscoveryParams.field_of_topic params)
                (InterestDiscoveryParams.keywords params) of
            Inl e \<Rightarrow> (Inl e, w1)
          | Inr rendered \<Rightarrow>
             (let llm_params =
                    \<lparr>system_prompt = INTEREST_DISCOVERY_SYSTEM_PROMPT P,
                     prompt = rendered,
                     max_new_tokens = max_tokens params,
                     LmGentxtParams.temperature = InterestDiscoveryParams.temperature params\<rparr>
              in (case agentxt (model self) llm_params (model_state w1) of
                    (Inl e, s) \<Rightarrow> (Inl e, w1\<lparr>model_state := s\<rparr>)
                  | (Inr llm_result, s) \<Rightarrow>
                     (let w2 = w1\<lparr>model_state := s\<rparr>
                      in (case InterestDiscoveryResult_init
                                 (Some (InterestDiscoveryParams.field_of_topic params))
                                 (Some (InterestDiscoveryParams.keywords params))
                                 (Some (output llm_result))
                                 (Some (LmGentxtResult.input_tokens llm_result))
                                 (Some (LmGentxtResult.output_tokens llm_result)) of
                            Inl e \<Rightarrow> (Inl e, w2)
                          | Inr result \<Rightarrow>
                             (let w3 = emit SUCCESS (logger self)
                                         (''Async interest discovery completed for: ''
                                            @ InterestDiscoveryParams.field_of_topic params) w2;
                                  w4 = emit INFO (logger self)
                                         (''Generated ''
                                            @ str_int (InterestDiscoveryResult.output_tokens result)
                                            @ '' tokens of analysis'') w3
                              in (Inr result, w4))))))))"

section \<open>The template as the specification describes it\<close>

text \<open>
  The specification describes the prompt template as fixed text with two named
  substitution slots. Such a template is a list of pieces: a literal character, the
  slot for the field of topic, or the slot for the keywords. \<open>template_text\<close> is the
  string that writes such a template down (a literal brace is written twice, a slot is
  its name in braces), and \<open>fill\<close> is the template with the two values put into its slots.
\<close>

datatype piece = Lit char | Slot_field_of_topic | Slot_keywords

fun piece_text :: "piece \<Rightarrow> string" where
  "piece_text (Lit c) = (if c = CHR ''{'' \<or> c = CHR ''}'' then [c, c] else [c])"
| "piece_text Slot_field_of_topic = ''{field_of_topic}''"
| "piece_text Slot_keywords = ''{keywords}''"

definition template_text :: "piece list \<Rightarrow> string" where
  "template_text ps = concat (map piece_text ps)"

fun piece_value :: "string \<Rightarrow> string \<Rightarrow> piece \<Rightarrow> string" where
  "piece_value f k (Lit c) = [c]"
| "piece_value f k Slot_field_of_topic = f"
| "piece_value f k Slot_keywords = k"

definition fill :: "piece list \<Rightarrow> string \<Rightarrow> string \<Rightarrow> string" where
  "fill ps f k = concat (map (piece_value f k) ps)"

section \<open>Models and prompts used as examples\<close>

text \<open>
  \<open>recorder r\<close> is a model that answers every call, blocking or not, with \<open>r\<close> and keeps
  the list of the generation parameters it was called with as its state.
\<close>

definition recorder :: "exn + LmGentxtResult \<Rightarrow> LmGentxtParams list LmBasis" where
  "recorder r = \<lparr>gentxt = (\<lambda>q s. (r, s @ [q])), agentxt = (\<lambda>q s. (r, s @ [q]))\<rparr>"

definition example_pieces :: "piece list" where
  "example_pieces =
     map Lit ''Field: '' @ [Slot_field_of_topic] @ map Lit '' / keywords: ''
       @ [Slot_keywords] @ map Lit '' {json}''"

definition example_prompts :: prompts where
  "example_prompts =
     \<lparr>INTEREST_DISCOVERY_PROMPT_TEMPLATE =
        ''Field: {field_of_topic} / keywords: {keywords} {{json}}'',
      INTEREST_DISCOVERY_SYSTEM_PROMPT = ''You find questions.''\<rparr>"

definition fresh :: "LmGentxtParams list world" where
  "fresh = \<lparr>model_state = [], sink = []\<rparr>"

text \<open>
  The request and the response of the specification's scenario, and a request with two
  empty strings.
\<close>

definition scenario_request :: InterestDiscoveryParams where
  "scenario_request =
     \<lparr>InterestDiscoveryParams.field_of_topic = ''space exploration'',
      InterestDiscoveryParams.keywords = ''mars colonization risks'',
      max_tokens = Some 4000,
      InterestDiscoveryParams.temperature = 0.7\<rparr>"

definition scenario_response :: LmGentxtResult where
  "scenario_response =
     \<lparr>output = ''Is Mars colonization doomed?'',
      LmGentxtResult.input_tokens = 120,
      LmGentxtResult.output_tokens = 45\<rparr>"

definition empty_request :: InterestDiscoveryParams where
  "empty_request =
     \<lparr>InterestDiscoveryParams.field_of_topic = [],
      InterestDiscoveryParams.keywords = [],
      max_tokens = Some 4000,
      InterestDiscoveryParams.temperature = 0.7\<rparr>"

section \<open>Properties of the rendering\<close>

lemma example_template: "INTEREST_DISCOVERY_PROMPT_TEMPLATE example_prompts = template_text example_pieces"
  by (simp add: example_prompts_def example_pieces_def template_text_def)

text \<open>
  On a template written as text with the two slots, \<open>format\<close> succeeds and gives the text
  with the values in the slots, whatever the values contain.
\<close>

lemma format_slot_field_of_topic:
  "format (''{field_of_topic}'' @ t) f k = (case format t f k of Inl e \<Rightarrow> Inl e | Inr s \<Rightarrow> Inr (f @ s))"
  by (simp add: kwargs_def)

lemma format_slot_keywords:
  "format (''{keywords}'' @ t) f k = (case format t f k of Inl e \<Rightarrow> Inl e | Inr s \<Rightarrow> Inr (k @ s))"
  by (simp add: kwargs_def)

lemma format_lit:
  "format (piece_text (Lit c) @ t) f k = (case format t f k of Inl e \<Rightarrow> Inl e | Inr s \<Rightarrow> Inr (c # s))"
  by simp

lemma template_text_Cons: "template_text (p # ps) = piece_text p @ template_text ps"
  by (simp add: template_text_def)

lemma fill_Cons: "fill (p # ps) f k = piece_value f k p @ fill ps f k"
  by (simp add: fill_def)

lemma format_template_text: "format (template_text ps) f k = Inr (fill ps f k)"
proof (induction ps)
  case Nil
  show ?case by (simp add: template_text_def fill_def)
next
  case (Cons p ps)
  show ?case
  proof (cases p)
    case (Lit c)
    show ?thesis
      unfolding Lit template_text_Cons fill_Cons format_lit Cons.IH by simp
  next
    case Slot_field_of_topic
    show ?thesis
      unfolding Slot_field_of_topic template_text_Cons fill_Cons piece_text.simps
        format_slot_field_of_topic Cons.IH by simp
  next
    case Slot_keywords
    show ?thesis
      unfolding Slot_keywords template_text_Cons fill_Cons piece_text.simps
        format_slot_keywords Cons.IH by simp
  qed
qed

lemma fill_append: "fill (ps @ qs) f k = fill ps f k @ fill qs f k"
  by (simp add: fill_def)

lemma slot_field_of_topic_sublist:
  "Slot_field_of_topic \<in> set ps \<Longrightarrow> sublist f (fill ps f k)"
  by (auto simp: in_set_conv_decomp fill_append fill_Cons)

lemma slot_keywords_sublist:
  "Slot_keywords \<in> set ps \<Longrightarrow> sublist k (fill ps f k)"
  by (auto simp: in_set_conv_decomp fill_append fill_Cons)

text \<open>
  Conversely, every template that \<open>format\<close> renders is text with the two slots, and what it
  renders is that text with the slots filled: \<open>template_text\<close> describes exactly the
  templates on which the call of \<^verbatim>\<open>str.format\<close> succeeds.
\<close>

lemma parse_field_text:
  "parse_field cs = Field name rest \<Longrightarrow> cs = name @ CHR ''}'' # rest"
  by (induction cs arbitrary: name) (auto split: if_splits replacement_field.splits)

lemma kwargs_Some:
  "kwargs f k name = Some v \<Longrightarrow>
     (name = ''field_of_topic'' \<and> v = f) \<or> (name = ''keywords'' \<and> v = k)"
  by (auto simp: kwargs_def split: if_splits)

lemma format_Inr_template_text:
  "format t f k = Inr s \<Longrightarrow> \<exists>ps. t = template_text ps \<and> s = fill ps f k"
proof (induction t f k arbitrary: s rule: format.induct)
  case (1 f k)
  then have "[] = template_text [] \<and> s = fill [] f k"
    by (simp add: template_text_def fill_def)
  then show ?case by blast
next
  case (2 c cs f k)
  consider (rbrace) "c = CHR ''}''" | (lbrace) "c = CHR ''{''"
    | (plain) "c \<noteq> CHR ''}''" "c \<noteq> CHR ''{''"
    by blast
  then show ?case
  proof cases
    case rbrace
    with "2.prems" have "\<exists>ds s'. cs = CHR ''}'' # ds \<and> format ds f k = Inr s' \<and> s = c # s'"
      by (auto split: list.splits if_splits sum.splits)
    then obtain ds s' where cs: "cs = CHR ''}'' # ds" and r: "format ds f k = Inr s'"
      and s: "s = c # s'"
      by blast
    from "2.IH"(1)[OF rbrace cs _ r] obtain ps where "ds = template_text ps" "s' = fill ps f k"
      by auto
    with rbrace cs s have "c # cs = template_text (Lit c # ps) \<and> s = fill (Lit c # ps) f k"
      by (simp add: template_text_Cons fill_Cons)
    then show ?thesis by blast
  next
    case lbrace
    with "2.prems" have "\<exists>d ds. cs = d # ds"
      by (auto split: list.splits)
    then obtain d ds where cs: "cs = d # ds"
      by blast
    show ?thesis
    proof (cases "d = CHR ''{''")
      case True
      with "2.prems" lbrace cs have "\<exists>s'. format ds f k = Inr s' \<and> s = c # s'"
        by (auto split: sum.splits)
      then obtain s' where r: "format ds f k = Inr s'" and s: "s = c # s'"
        by blast
      from "2.IH"(2)[OF _ lbrace cs True r] lbrace obtain ps
        where "ds = template_text ps" "s' = fill ps f k"
        by auto
      with lbrace cs True s
      have "c # cs = template_text (Lit c # ps) \<and> s = fill (Lit c # ps) f k"
        by (simp add: template_text_Cons fill_Cons)
      then show ?thesis by blast
    next
      case False
      with "2.prems" lbrace cs
      have "\<exists>name rest v s'. parse_field cs = Field name rest \<and> kwargs f k name = Some v
              \<and> format rest f k = Inr s' \<and> s = v @ s'"
        by (auto simp del: parse_field.simps
                 split: sum.splits replacement_field.splits option.splits)
      then obtain name rest v s'
        where pf: "parse_field cs = Field name rest" and kw: "kwargs f k name = Some v"
          and r: "format rest f k = Inr s'" and s: "s = v @ s'"
        by blast
      from "2.IH"(3)[OF _ lbrace cs False pf kw r] lbrace obtain ps
        where ps: "rest = template_text ps" "s' = fill ps f k"
        by auto
      from parse_field_text[OF pf] have shape: "c # cs = CHR ''{'' # name @ CHR ''}'' # rest"
        using lbrace by simp
      from kwargs_Some[OF kw] show ?thesis
      proof
        assume "name = ''field_of_topic'' \<and> v = f"
        with shape ps s
        have "c # cs = template_text (Slot_field_of_topic # ps)
              \<and> s = fill (Slot_field_of_topic # ps) f k"
          by (simp add: template_text_Cons fill_Cons)
        then show ?thesis by blast
      next
        assume "name = ''keywords'' \<and> v = k"
        with shape ps s
        have "c # cs = template_text (Slot_keywords # ps)
              \<and> s = fill (Slot_keywords # ps) f k"
          by (simp add: template_text_Cons fill_Cons)
        then show ?thesis by blast
      qed
    qed
  next
    case plain
    with "2.prems" have "\<exists>s'. format cs f k = Inr s' \<and> s = c # s'"
      by (auto split: sum.splits)
    then obtain s' where r: "format cs f k = Inr s'" and s: "s = c # s'"
      by blast
    from "2.IH"(4)[OF plain r] obtain ps where "cs = template_text ps" "s' = fill ps f k"
      by auto
    with plain s have "c # cs = template_text (Lit c # ps) \<and> s = fill (Lit c # ps) f k"
      by (simp add: template_text_Cons fill_Cons)
    then show ?thesis by blast
  qed
qed


section \<open>Properties of the two methods\<close>

text \<open>
  Once the prompt is rendered, the outcome of a call and the state the model is left in are
  those of the one model operation on the request built from the rendered prompt; when
  rendering fails, the model is not called.
\<close>

lemma InterestDiscoveryResult_init_all:
  "InterestDiscoveryResult_init (Some f) (Some k) (Some a) (Some i) (Some j) =
     Inr \<lparr>InterestDiscoveryResult.field_of_topic = f,
          InterestDiscoveryResult.keywords = k,
          interest_analysis = a,
          InterestDiscoveryResult.input_tokens = i,
          InterestDiscoveryResult.output_tokens = j\<rparr>"
  by (simp add: InterestDiscoveryResult_init_def)

lemma discover_outcome:
  assumes "format (INTEREST_DISCOVERY_PROMPT_TEMPLATE P)
             (InterestDiscoveryParams.field_of_topic params)
             (InterestDiscoveryParams.keywords params) = Inr rendered"
  shows "fst (discover P self params w0) =
           (case fst (gentxt (model self)
                        \<lparr>system_prompt = INTEREST_DISCOVERY_SYSTEM_PROMPT P,
                         prompt = rendered,
                         max_new_tokens = max_tokens params,
                         LmGentxtParams.temperature = InterestDiscoveryParams.temperature params\<rparr>
                        (model_state w0)) of
              Inl e \<Rightarrow> Inl e
            | Inr llm_result \<Rightarrow>
                Inr \<lparr>InterestDiscoveryResult.field_of_topic =
                       InterestDiscoveryParams.field_of_topic params,
                     InterestDiscoveryResult.keywords = InterestDiscoveryParams.keywords params,
                     interest_analysis = output llm_result,
                     InterestDiscoveryResult.input_tokens = LmGentxtResult.input_tokens llm_result,
                     InterestDiscoveryResult.output_tokens =
                       LmGentxtResult.output_tokens llm_result\<rparr>)"
  using assms
  by (simp add: discover_def Let_def emit_def InterestDiscoveryResult_init_all
           split: prod.splits sum.splits)

lemma discover_model_state:
  assumes "format (INTEREST_DISCOVERY_PROMPT_TEMPLATE P)
             (InterestDiscoveryParams.field_of_topic params)
             (InterestDiscoveryParams.keywords params) = Inr rendered"
  shows "model_state (snd (discover P self params w0)) =
           snd (gentxt (model self)
                  \<lparr>system_prompt = INTEREST_DISCOVERY_SYSTEM_PROMPT P,
                   prompt = rendered,
                   max_new_tokens = max_tokens params,
                   LmGentxtParams.temperature = InterestDiscoveryParams.temperature params\<rparr>
                  (model_state w0))"
  using assms
  by (simp add: discover_def Let_def emit_def InterestDiscoveryResult_init_all
           split: prod.splits sum.splits)

lemma discover_not_rendered:
  assumes "format (INTEREST_DISCOVERY_PROMPT_TEMPLATE P)
             (InterestDiscoveryParams.field_of_topic params)
             (InterestDiscoveryParams.keywords params) = Inl e"
  shows "fst (discover P self params w0) = Inl e"
    and "model_state (snd (discover P self params w0)) = model_state w0"
  using assms by (simp_all add: discover_def Let_def emit_def)


lemma adiscover_outcome:
  assumes "format (INTEREST_DISCOVERY_PROMPT_TEMPLATE P)
             (InterestDiscoveryParams.field_of_topic params)
             (InterestDiscoveryParams.keywords params) = Inr rendered"
  shows "fst (adiscover P self params w0) =
           (case fst (agentxt (model self)
                        \<lparr>system_prompt = INTEREST_DISCOVERY_SYSTEM_PROMPT P,
                         prompt = rendered,
                         max_new_tokens = max_tokens params,
                         LmGentxtParams.temperature = InterestDiscoveryParams.temperature params\<rparr>
                        (model_state w0)) of
              Inl e \<Rightarrow> Inl e
            | Inr llm_result \<Rightarrow>
                Inr \<lparr>InterestDiscoveryResult.field_of_topic =
                       InterestDiscoveryParams.field_of_topic params,
                     InterestDiscoveryResult.keywords = InterestDiscoveryParams.keywords params,
                     interest_analysis = output llm_result,
                     InterestDiscoveryResult.input_tokens = LmGentxtResult.input_tokens llm_result,
                     InterestDiscoveryResult.output_tokens =
                       LmGentxtResult.output_tokens llm_result\<rparr>)"
  using assms
  by (simp add: adiscover_def Let_def emit_def InterestDiscoveryResult_init_all
           split: prod.splits sum.splits)

lemma adiscover_model_state:
  assumes "format (INTEREST_DISCOVERY_PROMPT_TEMPLATE P)
             (InterestDiscoveryParams.field_of_topic params)
             (InterestDiscoveryParams.keywords params) = Inr rendered"
  shows "model_state (snd (adiscover P self params w0)) =
           snd (agentxt (model self)
                  \<lparr>system_prompt = INTEREST_DISCOVERY_SYSTEM_PROMPT P,
                   prompt = rendered,
                   max_new_tokens = max_tokens params,
                   LmGentxtParams.temperature = InterestDiscoveryParams.temperature params\<rparr>
                  (model_state w0))"
  using assms
  by (simp add: adiscover_def Let_def emit_def InterestDiscoveryResult_init_all
           split: prod.splits sum.splits)

lemma adiscover_not_rendered:
  assumes "format (INTEREST_DISCOVERY_PROMPT_TEMPLATE P)
             (InterestDiscoveryParams.field_of_topic params)
             (InterestDiscoveryParams.keywords params) = Inl e"
  shows "fst (adiscover P self params w0) = Inl e"
    and "model_state (snd (adiscover P self params w0)) = model_state w0"
  using assms by (simp_all add: adiscover_def Let_def emit_def)

lemma discover_Inr_rendered:
  assumes "fst (discover P self params w0) = Inr r"
  shows "\<exists>rendered. format (INTEREST_DISCOVERY_PROMPT_TEMPLATE P)
             (InterestDiscoveryParams.field_of_topic params)
             (InterestDiscoveryParams.keywords params) = Inr rendered"
proof (cases "format (INTEREST_DISCOVERY_PROMPT_TEMPLATE P)
             (InterestDiscoveryParams.field_of_topic params)
             (InterestDiscoveryParams.keywords params)")
  case (Inl e)
  from discover_not_rendered(1)[OF Inl, of self w0] assms show ?thesis by simp
next
  case (Inr rendered)
  then show ?thesis by blast
qed

lemma adiscover_Inr_rendered:
  assumes "fst (adiscover P self params w0) = Inr r"
  shows "\<exists>rendered. format (INTEREST_DISCOVERY_PROMPT_TEMPLATE P)
             (InterestDiscoveryParams.field_of_topic params)
             (InterestDiscoveryParams.keywords params) = Inr rendered"
proof (cases "format (INTEREST_DISCOVERY_PROMPT_TEMPLATE P)
             (InterestDiscoveryParams.field_of_topic params)
             (InterestDiscoveryParams.keywords params)")
  case (Inl e)
  from adiscover_not_rendered(1)[OF Inl, of self w0] assms show ?thesis by simp
next
  case (Inr rendered)
  then show ?thesis by blast
qed

lemma example_rendered:
  "format (INTEREST_DISCOVERY_PROMPT_TEMPLATE example_prompts) f k =
     Inr (''Field: '' @ f @ '' / keywords: '' @ k @ '' {json}'')"
  unfolding example_template format_template_text
  by (simp add: example_pieces_def fill_def)

lemma recorder_sel:
  "gentxt (recorder r) = (\<lambda>q s. (r, s @ [q]))" "agentxt (recorder r) = (\<lambda>q s. (r, s @ [q]))"
  by (simp_all add: recorder_def)

lemma scenario_request_defaults:
  "InterestDiscoveryParams_init (Some ''space exploration'') (Some ''mars colonization risks'')
     None None = Inr scenario_request"
  by (simp add: InterestDiscoveryParams_init_def scenario_request_def)

lemma scenario_rendered:
  "format (INTEREST_DISCOVERY_PROMPT_TEMPLATE example_prompts)
     (InterestDiscoveryParams.field_of_topic scenario_request)
     (InterestDiscoveryParams.keywords scenario_request)
     = Inr ''Field: space exploration / keywords: mars colonization risks {json}''"
  by (simp add: example_rendered scenario_request_def)

section \<open>The claims\<close>

text \<open>
  C1 (echo invariant). Whenever \<^verbatim>\<open>discover\<close> or \<^verbatim>\<open>adiscover\<close> returns a result, the result's
  \<^verbatim>\<open>field_of_topic\<close> and \<^verbatim>\<open>keywords\<close> are the request's \<^verbatim>\<open>field_of_topic\<close> and \<^verbatim>\<open>keywords\<close>,
  character for character. This holds for every template, model and request.
\<close>

theorem echo_invariant:
  "(fst (discover P self params w0) = Inr r \<longrightarrow>
      InterestDiscoveryResult.field_of_topic r = InterestDiscoveryParams.field_of_topic params
      \<and> InterestDiscoveryResult.keywords r = InterestDiscoveryParams.keywords params)
   \<and> (fst (adiscover P self params w0) = Inr r' \<longrightarrow>
      InterestDiscoveryResult.field_of_topic r' = InterestDiscoveryParams.field_of_topic params
      \<and> InterestDiscoveryResult.keywords r' = InterestDiscoveryParams.keywords params)"
proof (intro conjI impI)
  assume ret: "fst (discover P self params w0) = Inr r"
  from discover_Inr_rendered[OF ret] obtain rendered
    where "format (INTEREST_DISCOVERY_PROMPT_TEMPLATE P)
             (InterestDiscoveryParams.field_of_topic params)
             (InterestDiscoveryParams.keywords params) = Inr rendered"
    by blast
  from discover_outcome[OF this, of self w0] ret
  show "InterestDiscoveryResult.field_of_topic r = InterestDiscoveryParams.field_of_topic params"
    and "InterestDiscoveryResult.keywords r = InterestDiscoveryParams.keywords params"
    by (auto split: sum.splits)
next
  assume ret: "fst (adiscover P self params w0) = Inr r'"
  from adiscover_Inr_rendered[OF ret] obtain rendered
    where "format (INTEREST_DISCOVERY_PROMPT_TEMPLATE P)
             (InterestDiscoveryParams.field_of_topic params)
             (InterestDiscoveryParams.keywords params) = Inr rendered"
    by blast
  from adiscover_outcome[OF this, of self w0] ret
  show "InterestDiscoveryResult.field_of_topic r' = InterestDiscoveryParams.field_of_topic params"
    and "InterestDiscoveryResult.keywords r' = InterestDiscoveryParams.keywords params"
    by (auto split: sum.splits)
qed

theorem echo_invariant_witness:
  "fst (discover example_prompts (InterestDiscovery_init (recorder (Inr scenario_response)) None)
          scenario_request fresh) =
     Inr \<lparr>InterestDiscoveryResult.field_of_topic = ''space exploration'',
          InterestDiscoveryResult.keywords = ''mars colonization risks'',
          interest_analysis = ''Is Mars colonization doomed?'',
          InterestDiscoveryResult.input_tokens = 120,
          InterestDiscoveryResult.output_tokens = 45\<rparr>
   \<and> fst (adiscover example_prompts (InterestDiscovery_init (recorder (Inr scenario_response)) None)
          scenario_request fresh) =
     Inr \<lparr>InterestDiscoveryResult.field_of_topic = ''space exploration'',
          InterestDiscoveryResult.keywords = ''mars colonization risks'',
          interest_analysis = ''Is Mars colonization doomed?'',
          InterestDiscoveryResult.input_tokens = 120,
          InterestDiscoveryResult.output_tokens = 45\<rparr>
   \<and> InterestDiscoveryParams.field_of_topic scenario_request = ''space exploration''
   \<and> InterestDiscoveryParams.keywords scenario_request = ''mars colonization risks''"
  using echo_invariant
    [of example_prompts "InterestDiscovery_init (recorder (Inr scenario_response)) None"
        scenario_request fresh
        "\<lparr>InterestDiscoveryResult.field_of_topic = ''space exploration'',
          InterestDiscoveryResult.keywords = ''mars colonization risks'',
          interest_analysis = ''Is Mars colonization doomed?'',
          InterestDiscoveryResult.input_tokens = 120,
          InterestDiscoveryResult.output_tokens = 45\<rparr>"
        "\<lparr>InterestDiscoveryResult.field_of_topic = ''space exploration'',
          InterestDiscoveryResult.keywords = ''mars colonization risks'',
          interest_analysis = ''Is Mars colonization doomed?'',
          InterestDiscoveryResult.input_tokens = 120,
          InterestDiscoveryResult.output_tokens = 45\<rparr>"]
  by (simp add: discover_outcome[OF example_rendered] adiscover_outcome[OF example_rendered]
        InterestDiscovery_init_def recorder_sel scenario_request_def scenario_response_def
        fresh_def)

text \<open>
  C2 (pass-through). Whenever \<^verbatim>\<open>discover\<close> returns a result, the prompt was rendered, the
  model's blocking operation returned a response to the request built from it, and the
  result's \<^verbatim>\<open>input_tokens\<close>, \<^verbatim>\<open>output_tokens\<close> and \<^verbatim>\<open>interest_analysis\<close> are that response's
  \<^verbatim>\<open>input_tokens\<close>, \<^verbatim>\<open>output_tokens\<close> and \<^verbatim>\<open>output\<close>, unchanged. The same holds for
  \<^verbatim>\<open>adiscover\<close> and the non-blocking operation.
\<close>

theorem token_pass_through:
  "(fst (discover P self params w0) = Inr r \<longrightarrow>
      (\<exists>rendered llm_result.
         format (INTEREST_DISCOVERY_PROMPT_TEMPLATE P)
           (InterestDiscoveryParams.field_of_topic params)
           (InterestDiscoveryParams.keywords params) = Inr rendered
         \<and> fst (gentxt (model self)
                  \<lparr>system_prompt = INTEREST_DISCOVERY_SYSTEM_PROMPT P,
                   prompt = rendered,
                   max_new_tokens = max_tokens params,
                   LmGentxtParams.temperature = InterestDiscoveryParams.temperature params\<rparr>
                  (model_state w0)) = Inr llm_result
         \<and> InterestDiscoveryResult.input_tokens r = LmGentxtResult.input_tokens llm_result
         \<and> InterestDiscoveryResult.output_tokens r = LmGentxtResult.output_tokens llm_result
         \<and> interest_analysis r = output llm_result))
   \<and> (fst (adiscover P self params w0) = Inr r' \<longrightarrow>
      (\<exists>rendered llm_result.
         format (INTEREST_DISCOVERY_PROMPT_TEMPLATE P)
           (InterestDiscoveryParams.field_of_topic params)
           (InterestDiscoveryParams.keywords params) = Inr rendered
         \<and> fst (agentxt (model self)
                  \<lparr>system_prompt = INTEREST_DISCOVERY_SYSTEM_PROMPT P,
                   prompt = rendered,
                   max_new_tokens = max_tokens params,
                   LmGentxtParams.temperature = InterestDiscoveryParams.temperature params\<rparr>
                  (model_state w0)) = Inr llm_result
         \<and> InterestDiscoveryResult.input_tokens r' = LmGentxtResult.input_tokens llm_result
         \<and> InterestDiscoveryResult.output_tokens r' = LmGentxtResult.output_tokens llm_result
         \<and> interest_analysis r' = output llm_result))"
proof (intro conjI impI)
  assume ret: "fst (discover P self params w0) = Inr r"
  from discover_Inr_rendered[OF ret] obtain rendered
    where rendered: "format (INTEREST_DISCOVERY_PROMPT_TEMPLATE P)
             (InterestDiscoveryParams.field_of_topic params)
             (InterestDiscoveryParams.keywords params) = Inr rendered"
    by blast
  from discover_outcome[OF rendered, of self w0] ret rendered
  show "\<exists>rendered llm_result.
         format (INTEREST_DISCOVERY_PROMPT_TEMPLATE P)
           (InterestDiscoveryParams.field_of_topic params)
           (InterestDiscoveryParams.keywords params) = Inr rendered
         \<and> fst (gentxt (model self)
                  \<lparr>system_prompt = INTEREST_DISCOVERY_SYSTEM_PROMPT P,
                   prompt = rendered,
                   max_new_tokens = max_tokens params,
                   LmGentxtParams.temperature = InterestDiscoveryParams.temperature params\<rparr>
                  (model_state w0)) = Inr llm_result
         \<and> InterestDiscoveryResult.input_tokens r = LmGentxtResult.input_tokens llm_result
         \<and> InterestDiscoveryResult.output_tokens r = LmGentxtResult.output_tokens llm_result
         \<and> interest_analysis r = output llm_result"
    by (auto split: sum.splits)
next
  assume ret: "fst (adiscover P self params w0) = Inr r'"
  from adiscover_Inr_rendered[OF ret] obtain rendered
    where rendered: "format (INTEREST_DISCOVERY_PROMPT_TEMPLATE P)
             (InterestDiscoveryParams.field_of_topic params)
             (InterestDiscoveryParams.keywords params) = Inr rendered"
    by blast
  from adiscover_outcome[OF rendered, of self w0] ret rendered
  show "\<exists>rendered llm_result.
         format (INTEREST_DISCOVERY_PROMPT_TEMPLATE P)
           (InterestDiscoveryParams.field_of_topic params)
           (InterestDiscoveryParams.keywords params) = Inr rendered
         \<and> fst (agentxt (model self)
                  \<lparr>system_prompt = INTEREST_DISCOVERY_SYSTEM_PROMPT P,
                   prompt = rendered,
                   max_new_tokens = max_tokens params,
                   LmGentxtParams.temperature = InterestDiscoveryParams.temperature params\<rparr>
                  (model_state w0)) = Inr llm_result
         \<and> InterestDiscoveryResult.input_tokens r' = LmGentxtResult.input_tokens llm_result
         \<and> InterestDiscoveryResult.output_tokens r' = LmGentxtResult.output_tokens llm_result
         \<and> interest_analysis r' = output llm_result"
    by (auto split: sum.splits)
qed

theorem token_pass_through_witness:
  "fst (discover example_prompts (InterestDiscovery_init (recorder (Inr scenario_response)) None)
          scenario_request fresh) =
     Inr \<lparr>InterestDiscoveryResult.field_of_topic = ''space exploration'',
          InterestDiscoveryResult.keywords = ''mars colonization risks'',
          interest_analysis = output scenario_response,
          InterestDiscoveryResult.input_tokens = LmGentxtResult.input_tokens scenario_response,
          InterestDiscoveryResult.output_tokens = LmGentxtResult.output_tokens scenario_response\<rparr>
   \<and> fst (adiscover example_prompts (InterestDiscovery_init (recorder (Inr scenario_response)) None)
          scenario_request fresh) =
     Inr \<lparr>InterestDiscoveryResult.field_of_topic = ''space exploration'',
          InterestDiscoveryResult.keywords = ''mars colonization risks'',
          interest_analysis = output scenario_response,
          InterestDiscoveryResult.input_tokens = LmGentxtResult.input_tokens scenario_response,
          InterestDiscoveryResult.output_tokens = LmGentxtResult.output_tokens scenario_response\<rparr>
   \<and> LmGentxtResult.input_tokens scenario_response = 120
   \<and> LmGentxtResult.output_tokens scenario_response = 45"
  using token_pass_through
    [of example_prompts "InterestDiscovery_init (recorder (Inr scenario_response)) None"
        scenario_request fresh
        "\<lparr>InterestDiscoveryResult.field_of_topic = ''space exploration'',
          InterestDiscoveryResult.keywords = ''mars colonization risks'',
          interest_analysis = output scenario_response,
          InterestDiscoveryResult.input_tokens = LmGentxtResult.input_tokens scenario_response,
          InterestDiscoveryResult.output_tokens = LmGentxtResult.output_tokens scenario_response\<rparr>"
        "\<lparr>InterestDiscoveryResult.field_of_topic = ''space exploration'',
          InterestDiscoveryResult.keywords = ''mars colonization risks'',
          interest_analysis = output scenario_response,
          InterestDiscoveryResult.input_tokens = LmGentxtResult.input_tokens scenario_response,
          InterestDiscoveryResult.output_tokens = LmGentxtResult.output_tokens scenario_response\<rparr>"]
  by (simp add: discover_outcome[OF example_rendered] adiscover_outcome[OF example_rendered]
        InterestDiscovery_init_def recorder_sel scenario_request_def scenario_response_def
        fresh_def)

text \<open>
  C3 (prompt rendering). When the template is fixed text with the two named slots, the
  request that \<^verbatim>\<open>discover\<close> (and \<^verbatim>\<open>adiscover\<close>) hands to the model carries the template with
  the request's two strings put into its slots as the prompt, and the fixed system prompt
  unchanged: the state the model is left in is the state its operation produces on exactly
  that request. Each string is a contiguous part of the prompt when its slot occurs in the
  template.
\<close>

theorem prompt_rendering:
  assumes "INTEREST_DISCOVERY_PROMPT_TEMPLATE P = template_text ps"
  shows "model_state (snd (discover P self params w0)) =
           snd (gentxt (model self)
                  \<lparr>system_prompt = INTEREST_DISCOVERY_SYSTEM_PROMPT P,
                   prompt = fill ps (InterestDiscoveryParams.field_of_topic params)
                              (InterestDiscoveryParams.keywords params),
                   max_new_tokens = max_tokens params,
                   LmGentxtParams.temperature = InterestDiscoveryParams.temperature params\<rparr>
                  (model_state w0))
       \<and> model_state (snd (adiscover P self params w0)) =
           snd (agentxt (model self)
                  \<lparr>system_prompt = INTEREST_DISCOVERY_SYSTEM_PROMPT P,
                   prompt = fill ps (InterestDiscoveryParams.field_of_topic params)
                              (InterestDiscoveryParams.keywords params),
                   max_new_tokens = max_tokens params,
                   LmGentxtParams.temperature = InterestDiscoveryParams.temperature params\<rparr>
                  (model_state w0))
       \<and> (Slot_field_of_topic \<in> set ps \<longrightarrow>
             sublist (InterestDiscoveryParams.field_of_topic params)
               (fill ps (InterestDiscoveryParams.field_of_topic params)
                  (InterestDiscoveryParams.keywords params)))
       \<and> (Slot_keywords \<in> set ps \<longrightarrow>
             sublist (InterestDiscoveryParams.keywords params)
               (fill ps (InterestDiscoveryParams.field_of_topic params)
                  (InterestDiscoveryParams.keywords params)))"
proof -
  have rendered: "format (INTEREST_DISCOVERY_PROMPT_TEMPLATE P)
             (InterestDiscoveryParams.field_of_topic params)
             (InterestDiscoveryParams.keywords params)
          = Inr (fill ps (InterestDiscoveryParams.field_of_topic params)
                   (InterestDiscoveryParams.keywords params))"
    unfolding assms by (rule format_template_text)
  show ?thesis
    using discover_model_state[OF rendered, of self w0]
      adiscover_model_state[OF rendered, of self w0]
      slot_field_of_topic_sublist[of ps] slot_keywords_sublist[of ps]
    by blast
qed

theorem prompt_rendering_witness:
  "INTEREST_DISCOVERY_PROMPT_TEMPLATE example_prompts = template_text example_pieces
   \<and> Slot_field_of_topic \<in> set example_pieces
   \<and> Slot_keywords \<in> set example_pieces
   \<and> model_state (snd (discover example_prompts
        (InterestDiscovery_init (recorder (Inr scenario_response)) None)
        scenario_request fresh)) =
      [\<lparr>system_prompt = ''You find questions.'',
        prompt = ''Field: space exploration / keywords: mars colonization risks {json}'',
        max_new_tokens = Some 4000,
        LmGentxtParams.temperature = 0.7\<rparr>]
   \<and> model_state (snd (adiscover example_prompts
        (InterestDiscovery_init (recorder (Inr scenario_response)) None)
        scenario_request fresh)) =
      [\<lparr>system_prompt = ''You find questions.'',
        prompt = ''Field: space exploration / keywords: mars colonization risks {json}'',
        max_new_tokens = Some 4000,
        LmGentxtParams.temperature = 0.7\<rparr>]
   \<and> sublist ''space exploration''
        ''Field: space exploration / keywords: mars colonization risks {json}''
   \<and> sublist ''mars colonization risks''
        ''Field: space exploration / keywords: mars colonization risks {json}''"
proof -
  note rendering = prompt_rendering
    [OF example_template,
     of "InterestDiscovery_init (recorder (Inr scenario_response)) None" scenario_request fresh]
  have slots: "Slot_field_of_topic \<in> set example_pieces" "Slot_keywords \<in> set example_pieces"
    by (simp_all add: example_pieces_def)
  have filled: "fill example_pieces ''space exploration'' ''mars colonization risks'' =
      ''Field: space exploration / keywords: mars colonization risks {json}''"
    by (simp add: fill_def example_pieces_def)
  from rendering slots show ?thesis
    by (simp add: example_template InterestDiscovery_init_def recorder_sel
          scenario_request_def fresh_def filled)
       (simp add: example_prompts_def)
qed

text \<open>
  C4 (blocking and non-blocking agree). For a model whose non-blocking operation does what
  its blocking operation does on every request and state, \<^verbatim>\<open>adiscover\<close> and \<^verbatim>\<open>discover\<close> have
  the same outcome (the same result, or the same exception) for every request and leave the
  model in the same state. The two differ only in the text of the events they log.
\<close>

theorem sync_async_equivalence:
  assumes "\<And>q s. agentxt (model self) q s = gentxt (model self) q s"
  shows "fst (adiscover P self params w0) = fst (discover P self params w0)
       \<and> model_state (snd (adiscover P self params w0)) =
           model_state (snd (discover P self params w0))"
proof (cases "format (INTEREST_DISCOVERY_PROMPT_TEMPLATE P)
             (InterestDiscoveryParams.field_of_topic params)
             (InterestDiscoveryParams.keywords params)")
  case (Inl e)
  show ?thesis
    by (simp add: discover_not_rendered[OF Inl] adiscover_not_rendered[OF Inl])
next
  case (Inr rendered)
  show ?thesis
    by (simp add: discover_outcome[OF Inr] adiscover_outcome[OF Inr]
          discover_model_state[OF Inr] adiscover_model_state[OF Inr] assms)
qed

theorem sync_async_equivalence_witness:
  "(\<forall>q s. agentxt (recorder (Inr scenario_response)) q s
            = gentxt (recorder (Inr scenario_response)) q s)
   \<and> fst (adiscover example_prompts
            (InterestDiscovery_init (recorder (Inr scenario_response)) None)
            scenario_request fresh)
     = fst (discover example_prompts
            (InterestDiscovery_init (recorder (Inr scenario_response)) None)
            scenario_request fresh)
   \<and> fst (discover example_prompts
            (InterestDiscovery_init (recorder (Inr scenario_response)) None)
            scenario_request fresh)
     = Inr \<lparr>InterestDiscoveryResult.field_of_topic = ''space exploration'',
            InterestDiscoveryResult.keywords = ''mars colonization risks'',
            interest_analysis = ''Is Mars colonization doomed?'',
            InterestDiscoveryResult.input_tokens = 120,
            InterestDiscoveryResult.output_tokens = 45\<rparr>"
proof -
  have same: "agentxt (model (InterestDiscovery_init (recorder (Inr scenario_response)) None)) q s
      = gentxt (model (InterestDiscovery_init (recorder (Inr scenario_response)) None)) q s"
    for q s
    by (simp add: InterestDiscovery_init_def recorder_sel)
  from sync_async_equivalence
    [of "InterestDiscovery_init (recorder (Inr scenario_response)) None",
     OF same, of example_prompts scenario_request fresh]
  show ?thesis
    by (simp add: discover_outcome[OF example_rendered] recorder_sel
          InterestDiscovery_init_def scenario_request_def scenario_response_def fresh_def)
qed

text \<open>
  C5 (error propagation). Once the prompt is rendered, if the model's blocking operation
  raises \<open>e\<close> on the request, \<^verbatim>\<open>discover\<close> raises exactly \<open>e\<close> and returns no result; the model is
  left in the state that one call produced, so it was not called again. The same holds for
  \<^verbatim>\<open>adiscover\<close> and the non-blocking operation.
\<close>

theorem error_propagation:
  assumes "format (INTEREST_DISCOVERY_PROMPT_TEMPLATE P)
             (InterestDiscoveryParams.field_of_topic params)
             (InterestDiscoveryParams.keywords params) = Inr rendered"
  shows "(fst (gentxt (model self)
                 \<lparr>system_prompt = INTEREST_DISCOVERY_SYSTEM_PROMPT P,
                  prompt = rendered,
                  max_new_tokens = max_tokens params,
                  LmGentxtParams.temperature = InterestDiscoveryParams.temperature params\<rparr>
                 (model_state w0)) = Inl e \<longrightarrow>
            fst (discover P self params w0) = Inl e
            \<and> model_state (snd (discover P self params w0)) =
                snd (gentxt (model self)
                       \<lparr>system_prompt = INTEREST_DISCOVERY_SYSTEM_PROMPT P,
                        prompt = rendered,
                        max_new_tokens = max_tokens params,
                        LmGentxtParams.temperature = InterestDiscoveryParams.temperature params\<rparr>
                       (model_state w0)))
       \<and> (fst (agentxt (model self)
                 \<lparr>system_prompt = INTEREST_DISCOVERY_SYSTEM_PROMPT P,
                  prompt = rendered,
                  max_new_tokens = max_tokens params,
                  LmGentxtParams.temperature = InterestDiscoveryParams.temperature params\<rparr>
                 (model_state w0)) = Inl e' \<longrightarrow>
            fst (adiscover P self params w0) = Inl e'
            \<and> model_state (snd (adiscover P self params w0)) =
                snd (agentxt (model self)
                       \<lparr>system_prompt = INTEREST_DISCOVERY_SYSTEM_PROMPT P,
                        prompt = rendered,
                        max_new_tokens = max_tokens params,
                        LmGentxtParams.temperature = InterestDiscoveryParams.temperature params\<rparr>
                       (model_state w0)))"
  by (simp add: discover_outcome[OF assms] adiscover_outcome[OF assms]
        discover_model_state[OF assms] adiscover_model_state[OF assms])

theorem error_propagation_witness:
  "format (INTEREST_DISCOVERY_PROMPT_TEMPLATE example_prompts)
     (InterestDiscoveryParams.field_of_topic scenario_request)
     (InterestDiscoveryParams.keywords scenario_request)
     = Inr ''Field: space exploration / keywords: mars colonization risks {json}''
   \<and> discover example_prompts
        (InterestDiscovery_init (recorder (Inl (Raised ''TimeoutError''))) None)
        scenario_request fresh
     = (Inl (Raised ''TimeoutError''),
        \<lparr>model_state =
           [\<lparr>system_prompt = ''You find questions.'',
             prompt = ''Field: space exploration / keywords: mars colonization risks {json}'',
             max_new_tokens = Some 4000,
             LmGentxtParams.temperature = 0.7\<rparr>],
         sink =
           [(INFO, ''interest_discovery'',
             ''Starting interest discovery for field: space exploration, keywords: mars colonization risks'')]\<rparr>)
   \<and> fst (adiscover example_prompts
        (InterestDiscovery_init (recorder (Inl (Raised ''TimeoutError''))) None)
        scenario_request fresh)
     = Inl (Raised ''TimeoutError'')"
proof -
  have rendered: "format (INTEREST_DISCOVERY_PROMPT_TEMPLATE example_prompts)
     (InterestDiscoveryParams.field_of_topic scenario_request)
     (InterestDiscoveryParams.keywords scenario_request)
     = Inr ''Field: space exploration / keywords: mars colonization risks {json}''"
    by (simp add: example_rendered scenario_request_def)
  have logged: "sink (snd (discover example_prompts
        (InterestDiscovery_init (recorder (Inl (Raised ''TimeoutError''))) None)
        scenario_request fresh))
     = [(INFO, ''interest_discovery'',
             ''Starting interest discovery for field: space exploration, keywords: mars colonization risks'')]"
    by (simp add: discover_def rendered Let_def emit_def InterestDiscovery_init_def
          recorder_sel fresh_def)
       (simp add: scenario_request_def)
  from error_propagation
    [OF rendered,
     of "InterestDiscovery_init (recorder (Inl (Raised ''TimeoutError''))) None" fresh
        "Raised ''TimeoutError''" "Raised ''TimeoutError''"]
    rendered logged
  show ?thesis
    by (simp add: prod_eq_iff world.equality InterestDiscovery_init_def recorder_sel fresh_def)
       (simp add: scenario_request_def example_prompts_def)
qed

text \<open>
  C6 (defaults). A request constructed without \<^verbatim>\<open>max_tokens\<close> has \<^verbatim>\<open>max_tokens\<close> 4000, and one
  constructed without \<^verbatim>\<open>temperature\<close> has \<^verbatim>\<open>temperature\<close> 0.7. The request's \<^verbatim>\<open>max_tokens\<close> is
  what the model receives as \<^verbatim>\<open>max_new_tokens\<close>, and its \<^verbatim>\<open>temperature\<close> as \<^verbatim>\<open>temperature\<close>, in
  both methods.
\<close>

theorem defaults_forwarded:
  assumes "InterestDiscoveryParams_init a_field_of_topic a_keywords a_max_tokens a_temperature
             = Inr params"
    and "format (INTEREST_DISCOVERY_PROMPT_TEMPLATE P)
             (InterestDiscoveryParams.field_of_topic params)
             (InterestDiscoveryParams.keywords params) = Inr rendered"
  shows "(a_max_tokens = None \<longrightarrow> max_tokens params = Some 4000)
       \<and> (a_temperature = None \<longrightarrow> InterestDiscoveryParams.temperature params = 0.7)
       \<and> model_state (snd (discover P self params w0)) =
           snd (gentxt (model self)
                  \<lparr>system_prompt = INTEREST_DISCOVERY_SYSTEM_PROMPT P,
                   prompt = rendered,
                   max_new_tokens = max_tokens params,
                   LmGentxtParams.temperature = InterestDiscoveryParams.temperature params\<rparr>
                  (model_state w0))
       \<and> model_state (snd (adiscover P self params w0)) =
           snd (agentxt (model self)
                  \<lparr>system_prompt = INTEREST_DISCOVERY_SYSTEM_PROMPT P,
                   prompt = rendered,
                   max_new_tokens = max_tokens params,
                   LmGentxtParams.temperature = InterestDiscoveryParams.temperature params\<rparr>
                  (model_state w0))"
proof (intro conjI impI)
  assume "a_max_tokens = None"
  with assms(1) show "max_tokens params = Some 4000"
    by (auto simp: InterestDiscoveryParams_init_def split: option.splits)
next
  assume "a_temperature = None"
  with assms(1) show "InterestDiscoveryParams.temperature params = 0.7"
    by (auto simp: InterestDiscoveryParams_init_def split: option.splits)
next
  show "model_state (snd (discover P self params w0)) =
           snd (gentxt (model self)
                  \<lparr>system_prompt = INTEREST_DISCOVERY_SYSTEM_PROMPT P,
                   prompt = rendered,
                   max_new_tokens = max_tokens params,
                   LmGentxtParams.temperature = InterestDiscoveryParams.temperature params\<rparr>
                  (model_state w0))"
    by (rule discover_model_state[OF assms(2)])
next
  show "model_state (snd (adiscover P self params w0)) =
           snd (agentxt (model self)
                  \<lparr>system_prompt = INTEREST_DISCOVERY_SYSTEM_PROMPT P,
                   prompt = rendered,
                   max_new_tokens = max_tokens params,
                   LmGentxtParams.temperature = InterestDiscoveryParams.temperature params\<rparr>
                  (model_state w0))"
    by (rule adiscover_model_state[OF assms(2)])
qed

theorem defaults_forwarded_witness:
  "InterestDiscoveryParams_init (Some ''space exploration'') (Some ''mars colonization risks'')
     None None = Inr scenario_request
   \<and> format (INTEREST_DISCOVERY_PROMPT_TEMPLATE example_prompts)
       (InterestDiscoveryParams.field_of_topic scenario_request)
       (InterestDiscoveryParams.keywords scenario_request)
     = Inr ''Field: space exploration / keywords: mars colonization risks {json}''
   \<and> max_tokens scenario_request = Some 4000
   \<and> InterestDiscoveryParams.temperature scenario_request = 0.7
   \<and> model_state (snd (discover example_prompts
        (InterestDiscovery_init (recorder (Inr scenario_response)) None)
        scenario_request fresh)) =
      [\<lparr>system_prompt = ''You find questions.'',
        prompt = ''Field: space exploration / keywords: mars colonization risks {json}'',
        max_new_tokens = Some 4000,
        LmGentxtParams.temperature = 0.7\<rparr>]
   \<and> model_state (snd (adiscover example_prompts
        (InterestDiscovery_init (recorder (Inr scenario_response)) None)
        scenario_request fresh)) =
      [\<lparr>system_prompt = ''You find questions.'',
        prompt = ''Field: space exploration / keywords: mars colonization risks {json}'',
        max_new_tokens = Some 4000,
        LmGentxtParams.temperature = 0.7\<rparr>]"
proof -
  from defaults_forwarded
    [OF scenario_request_defaults scenario_rendered,
     of "InterestDiscovery_init (recorder (Inr scenario_response)) None" fresh]
    scenario_request_defaults scenario_rendered
  show ?thesis
    by (simp add: InterestDiscovery_init_def recorder_sel fresh_def)
       (simp add: example_prompts_def)
qed

text \<open>
  C7 (positivity of \<^verbatim>\<open>max_tokens\<close>), as stated, fails: the field is declared
  \<^verbatim>\<open>Optional[int]\<close> with a default and no bound, so construction with \<^verbatim>\<open>max_tokens = -1\<close>
  succeeds and the constructed request holds \<open>- 1\<close>.
\<close>

theorem max_tokens_not_checked:
  "InterestDiscoveryParams_init (Some ''space exploration'') (Some ''mars colonization risks'')
     (Some (Some (- 1))) None
   = Inr \<lparr>InterestDiscoveryParams.field_of_topic = ''space exploration'',
          InterestDiscoveryParams.keywords = ''mars colonization risks'',
          max_tokens = Some (- 1),
          InterestDiscoveryParams.temperature = 0.7\<rparr>
   \<and> \<not> (0 :: int) < - 1"
  by (simp add: InterestDiscoveryParams_init_def)

text \<open>
  C7, amended. Construction does not constrain \<^verbatim>\<open>max_tokens\<close>: for every supplied value
  \<open>m\<close>, an integer of any sign or an explicit \<^verbatim>\<open>None\<close>, construction succeeds and the request
  holds \<open>m\<close> unchanged; when none is supplied construction succeeds with 4000. Hence whatever
  request is constructed holds the supplied value, or 4000.
\<close>

theorem max_tokens_as_supplied:
  "InterestDiscoveryParams_init (Some f) (Some k) (Some m) a_temperature
     = Inr \<lparr>InterestDiscoveryParams.field_of_topic = f,
            InterestDiscoveryParams.keywords = k,
            max_tokens = m,
            InterestDiscoveryParams.temperature =
              (case a_temperature of None \<Rightarrow> 0.7 | Some t \<Rightarrow> t)\<rparr>
   \<and> InterestDiscoveryParams_init (Some f) (Some k) None a_temperature
     = Inr \<lparr>InterestDiscoveryParams.field_of_topic = f,
            InterestDiscoveryParams.keywords = k,
            max_tokens = Some 4000,
            InterestDiscoveryParams.temperature =
              (case a_temperature of None \<Rightarrow> 0.7 | Some t \<Rightarrow> t)\<rparr>
   \<and> (InterestDiscoveryParams_init a_field_of_topic a_keywords a_max_tokens a_temperature'
         = Inr params \<longrightarrow>
        max_tokens params = (case a_max_tokens of None \<Rightarrow> Some 4000 | Some m' \<Rightarrow> m'))"
proof (intro conjI impI)
  show "InterestDiscoveryParams_init (Some f) (Some k) (Some m) a_temperature
     = Inr \<lparr>InterestDiscoveryParams.field_of_topic = f,
            InterestDiscoveryParams.keywords = k,
            max_tokens = m,
            InterestDiscoveryParams.temperature =
              (case a_temperature of None \<Rightarrow> 0.7 | Some t \<Rightarrow> t)\<rparr>"
    by (simp add: InterestDiscoveryParams_init_def)
next
  show "InterestDiscoveryParams_init (Some f) (Some k) None a_temperature
     = Inr \<lparr>InterestDiscoveryParams.field_of_topic = f,
            InterestDiscoveryParams.keywords = k,
            max_tokens = Some 4000,
            InterestDiscoveryParams.temperature =
              (case a_temperature of None \<Rightarrow> 0.7 | Some t \<Rightarrow> t)\<rparr>"
    by (simp add: InterestDiscoveryParams_init_def)
next
  assume "InterestDiscoveryParams_init a_field_of_topic a_keywords a_max_tokens a_temperature'
         = Inr params"
  then show "max_tokens params = (case a_max_tokens of None \<Rightarrow> Some 4000 | Some m' \<Rightarrow> m')"
    by (auto simp: InterestDiscoveryParams_init_def split: option.splits)
qed

theorem max_tokens_as_supplied_witness:
  "InterestDiscoveryParams_init (Some ''space exploration'') (Some ''mars colonization risks'')
     (Some (Some (- 7))) None
   = Inr \<lparr>InterestDiscoveryParams.field_of_topic = ''space exploration'',
          InterestDiscoveryParams.keywords = ''mars colonization risks'',
          max_tokens = Some (- 7),
          InterestDiscoveryParams.temperature = 0.7\<rparr>
   \<and> InterestDiscoveryParams_init (Some ''space exploration'') (Some ''mars colonization risks'')
     (Some (Some 0)) None
   = Inr \<lparr>InterestDiscoveryParams.field_of_topic = ''space exploration'',
          InterestDiscoveryParams.keywords = ''mars colonization risks'',
          max_tokens = Some 0,
          InterestDiscoveryParams.temperature = 0.7\<rparr>
   \<and> InterestDiscoveryParams_init (Some ''space exploration'') (Some ''mars colonization risks'')
     (Some None) None
   = Inr \<lparr>InterestDiscoveryParams.field_of_topic = ''space exploration'',
          InterestDiscoveryParams.keywords = ''mars colonization risks'',
          max_tokens = None,
          InterestDiscoveryParams.temperature = 0.7\<rparr>
   \<and> max_tokens \<lparr>InterestDiscoveryParams.field_of_topic = ''space exploration'',
          InterestDiscoveryParams.keywords = ''mars colonization risks'',
          max_tokens = Some (- 7),
          InterestDiscoveryParams.temperature = 0.7\<rparr> = Some (- 7)"
proof -
  note neg = max_tokens_as_supplied
    [of "''space exploration''" "''mars colonization risks''" "Some (- 7)" None
        "Some ''space exploration''" "Some ''mars colonization risks''" "Some (Some (- 7))" None
        "\<lparr>InterestDiscoveryParams.field_of_topic = ''space exploration'',
          InterestDiscoveryParams.keywords = ''mars colonization risks'',
          max_tokens = Some (- 7),
          InterestDiscoveryParams.temperature = 0.7\<rparr>"]
  note zero = max_tokens_as_supplied
    [of "''space exploration''" "''mars colonization risks''" "Some 0" None,
     THEN conjunct1]
  note none = max_tokens_as_supplied
    [of "''space exploration''" "''mars colonization risks''" None None,
     THEN conjunct1]
  from neg zero none show ?thesis
    by simp
qed

text \<open>
  C8 (non-negative token counts), as stated, fails: \<^verbatim>\<open>input_tokens\<close> and \<^verbatim>\<open>output_tokens\<close> are
  declared \<^verbatim>\<open>int\<close> with no bound, so a result is constructed with the counts \<open>- 1\<close> and
  \<open>- 45\<close>, and \<^verbatim>\<open>discover\<close> returns such a result when the model's response carries them.
\<close>

theorem token_counts_not_checked:
  "InterestDiscoveryResult_init (Some ''space exploration'') (Some ''mars colonization risks'')
     (Some ''Is Mars colonization doomed?'') (Some (- 1)) (Some (- 45))
   = Inr \<lparr>InterestDiscoveryResult.field_of_topic = ''space exploration'',
          InterestDiscoveryResult.keywords = ''mars colonization risks'',
          interest_analysis = ''Is Mars colonization doomed?'',
          InterestDiscoveryResult.input_tokens = - 1,
          InterestDiscoveryResult.output_tokens = - 45\<rparr>
   \<and> fst (discover example_prompts
          (InterestDiscovery_init
             (recorder (Inr \<lparr>output = ''Is Mars colonization doomed?'',
                              LmGentxtResult.input_tokens = - 1,
                              LmGentxtResult.output_tokens = - 45\<rparr>)) None)
          scenario_request fresh)
   = Inr \<lparr>InterestDiscoveryResult.field_of_topic = ''space exploration'',
          InterestDiscoveryResult.keywords = ''mars colonization risks'',
          interest_analysis = ''Is Mars colonization doomed?'',
          InterestDiscoveryResult.input_tokens = - 1,
          InterestDiscoveryResult.output_tokens = - 45\<rparr>
   \<and> \<not> (0 :: int) \<le> - 1 \<and> \<not> (0 :: int) \<le> - 45"
  by (simp add: InterestDiscoveryResult_init_all discover_outcome[OF scenario_rendered]
        InterestDiscovery_init_def recorder_sel fresh_def)
     (simp add: scenario_request_def)

text \<open>
  C8, amended. The result container does not constrain its token counts: for all integers
  \<open>i\<close> and \<open>j\<close>, of any sign, construction with them succeeds and the result holds them
  unchanged. Accordingly, once the prompt is rendered and the model answers, \<^verbatim>\<open>discover\<close>
  returns a result carrying the counts of the model's response, whatever they are; and the
  counts of any result it returns are non-negative exactly when those of the response are.
\<close>

theorem token_counts_as_given:
  "InterestDiscoveryResult_init (Some f) (Some k) (Some a) (Some i) (Some j)
     = Inr \<lparr>InterestDiscoveryResult.field_of_topic = f,
            InterestDiscoveryResult.keywords = k,
            interest_analysis = a,
            InterestDiscoveryResult.input_tokens = i,
            InterestDiscoveryResult.output_tokens = j\<rparr>
   \<and> (format (INTEREST_DISCOVERY_PROMPT_TEMPLATE P)
         (InterestDiscoveryParams.field_of_topic params)
         (InterestDiscoveryParams.keywords params) = Inr rendered' \<longrightarrow>
       fst (gentxt (model self)
              \<lparr>system_prompt = INTEREST_DISCOVERY_SYSTEM_PROMPT P,
               prompt = rendered',
               max_new_tokens = max_tokens params,
               LmGentxtParams.temperature = InterestDiscoveryParams.temperature params\<rparr>
              (model_state w0)) = Inr llm_result' \<longrightarrow>
       fst (discover P self params w0)
         = Inr \<lparr>InterestDiscoveryResult.field_of_topic =
                  InterestDiscoveryParams.field_of_topic params,
                InterestDiscoveryResult.keywords = InterestDiscoveryParams.keywords params,
                interest_analysis = output llm_result',
                InterestDiscoveryResult.input_tokens = LmGentxtResult.input_tokens llm_result',
                InterestDiscoveryResult.output_tokens =
                  LmGentxtResult.output_tokens llm_result'\<rparr>)
   \<and> (InterestDiscoveryResult_init a_field_of_topic a_keywords a_interest_analysis
        a_input_tokens a_output_tokens = Inr r \<longrightarrow>
      a_input_tokens = Some (InterestDiscoveryResult.input_tokens r)
      \<and> a_output_tokens = Some (InterestDiscoveryResult.output_tokens r))
   \<and> (fst (discover P self params w0) = Inr r' \<longrightarrow>
      (\<exists>rendered llm_result.
         format (INTEREST_DISCOVERY_PROMPT_TEMPLATE P)
           (InterestDiscoveryParams.field_of_topic params)
           (InterestDiscoveryParams.keywords params) = Inr rendered
         \<and> fst (gentxt (model self)
                  \<lparr>system_prompt = INTEREST_DISCOVERY_SYSTEM_PROMPT P,
                   prompt = rendered,
                   max_new_tokens = max_tokens params,
                   LmGentxtParams.temperature = InterestDiscoveryParams.temperature params\<rparr>
                  (model_state w0)) = Inr llm_result
         \<and> (0 \<le> InterestDiscoveryResult.input_tokens r')
             = (0 \<le> LmGentxtResult.input_tokens llm_result)
         \<and> (0 \<le> InterestDiscoveryResult.output_tokens r')
             = (0 \<le> LmGentxtResult.output_tokens llm_result)))"
proof (intro conjI impI)
  show "InterestDiscoveryResult_init (Some f) (Some k) (Some a) (Some i) (Some j)
     = Inr \<lparr>InterestDiscoveryResult.field_of_topic = f,
            InterestDiscoveryResult.keywords = k,
            interest_analysis = a,
            InterestDiscoveryResult.input_tokens = i,
            InterestDiscoveryResult.output_tokens = j\<rparr>"
    by (simp add: InterestDiscoveryResult_init_def)
next
  assume rendered': "format (INTEREST_DISCOVERY_PROMPT_TEMPLATE P)
         (InterestDiscoveryParams.field_of_topic params)
         (InterestDiscoveryParams.keywords params) = Inr rendered'"
    and answered: "fst (gentxt (model self)
              \<lparr>system_prompt = INTEREST_DISCOVERY_SYSTEM_PROMPT P,
               prompt = rendered',
               max_new_tokens = max_tokens params,
               LmGentxtParams.temperature = InterestDiscoveryParams.temperature params\<rparr>
              (model_state w0)) = Inr llm_result'"
  show "fst (discover P self params w0)
         = Inr \<lparr>InterestDiscoveryResult.field_of_topic =
                  InterestDiscoveryParams.field_of_topic params,
                InterestDiscoveryResult.keywords = InterestDiscoveryParams.keywords params,
                interest_analysis = output llm_result',
                InterestDiscoveryResult.input_tokens = LmGentxtResult.input_tokens llm_result',
                InterestDiscoveryResult.output_tokens =
                  LmGentxtResult.output_tokens llm_result'\<rparr>"
    by (simp add: discover_outcome[OF rendered'] answered)
next
  assume "InterestDiscoveryResult_init a_field_of_topic a_keywords a_interest_analysis
        a_input_tokens a_output_tokens = Inr r"
  then show "a_input_tokens = Some (InterestDiscoveryResult.input_tokens r)"
    and "a_output_tokens = Some (InterestDiscoveryResult.output_tokens r)"
    by (auto simp: InterestDiscoveryResult_init_def split: option.splits)
next
  assume ret: "fst (discover P self params w0) = Inr r'"
  from discover_Inr_rendered[OF ret] obtain rendered
    where rendered: "format (INTEREST_DISCOVERY_PROMPT_TEMPLATE P)
             (InterestDiscoveryParams.field_of_topic params)
             (InterestDiscoveryParams.keywords params) = Inr rendered"
    by blast
  from discover_outcome[OF rendered, of self w0] ret rendered
  show "\<exists>rendered llm_result.
         format (INTEREST_DISCOVERY_PROMPT_TEMPLATE P)
           (InterestDiscoveryParams.field_of_topic params)
           (InterestDiscoveryParams.keywords params) = Inr rendered
         \<and> fst (gentxt (model self)
                  \<lparr>system_prompt = INTEREST_DISCOVERY_SYSTEM_PROMPT P,
                   prompt = rendered,
                   max_new_tokens = max_tokens params,
                   LmGentxtParams.temperature = InterestDiscoveryParams.temperature params\<rparr>
                  (model_state w0)) = Inr llm_result
         \<and> (0 \<le> InterestDiscoveryResult.input_tokens r')
             = (0 \<le> LmGentxtResult.input_tokens llm_result)
         \<and> (0 \<le> InterestDiscoveryResult.output_tokens r')
             = (0 \<le> LmGentxtResult.output_tokens llm_result)"
    by (auto split: sum.splits)
qed

theorem token_counts_as_given_witness:
  "InterestDiscoveryResult_init (Some ''space exploration'') (Some ''mars colonization risks'')
     (Some ''Is Mars colonization doomed?'') (Some (- 7)) (Some 0)
   = Inr \<lparr>InterestDiscoveryResult.field_of_topic = ''space exploration'',
          InterestDiscoveryResult.keywords = ''mars colonization risks'',
          interest_analysis = ''Is Mars colonization doomed?'',
          InterestDiscoveryResult.input_tokens = - 7,
          InterestDiscoveryResult.output_tokens = 0\<rparr>
   \<and> format (INTEREST_DISCOVERY_PROMPT_TEMPLATE example_prompts)
       (InterestDiscoveryParams.field_of_topic scenario_request)
       (InterestDiscoveryParams.keywords scenario_request)
     = Inr ''Field: space exploration / keywords: mars colonization risks {json}''
   \<and> fst (gentxt
            (model (InterestDiscovery_init
               (recorder (Inr \<lparr>output = ''Is Mars colonization doomed?'',
                                LmGentxtResult.input_tokens = - 7,
                                LmGentxtResult.output_tokens = 0\<rparr>)) None))
            \<lparr>system_prompt = INTEREST_DISCOVERY_SYSTEM_PROMPT example_prompts,
             prompt = ''Field: space exploration / keywords: mars colonization risks {json}'',
             max_new_tokens = max_tokens scenario_request,
             LmGentxtParams.temperature = InterestDiscoveryParams.temperature scenario_request\<rparr>
            (model_state fresh))
     = Inr \<lparr>output = ''Is Mars colonization doomed?'',
            LmGentxtResult.input_tokens = - 7,
            LmGentxtResult.output_tokens = 0\<rparr>
   \<and> fst (discover example_prompts
          (InterestDiscovery_init
             (recorder (Inr \<lparr>output = ''Is Mars colonization doomed?'',
                              LmGentxtResult.input_tokens = - 7,
                              LmGentxtResult.output_tokens = 0\<rparr>)) None)
          scenario_request fresh)
   = Inr \<lparr>InterestDiscoveryResult.field_of_topic = ''space exploration'',
          InterestDiscoveryResult.keywords = ''mars colonization risks'',
          interest_analysis = ''Is Mars colonization doomed?'',
          InterestDiscoveryResult.input_tokens = - 7,
          InterestDiscoveryResult.output_tokens = 0\<rparr>"
proof -
  have answered: "fst (gentxt
            (model (InterestDiscovery_init
               (recorder (Inr \<lparr>output = ''Is Mars colonization doomed?'',
                                LmGentxtResult.input_tokens = - 7,
                                LmGentxtResult.output_tokens = 0\<rparr>)) None))
            \<lparr>system_prompt = INTEREST_DISCOVERY_SYSTEM_PROMPT example_prompts,
             prompt = ''Field: space exploration / keywords: mars colonization risks {json}'',
             max_new_tokens = max_tokens scenario_request,
             LmGentxtParams.temperature = InterestDiscoveryParams.temperature scenario_request\<rparr>
            (model_state fresh))
     = Inr \<lparr>output = ''Is Mars colonization doomed?'',
            LmGentxtResult.input_tokens = - 7,
            LmGentxtResult.output_tokens = 0\<rparr>"
    by (simp add: InterestDiscovery_init_def recorder_sel)
  note given = token_counts_as_given
    [of "''space exploration''" "''mars colonization risks''"
        "''Is Mars colonization doomed?''" "- 7" 0
        example_prompts scenario_request
        "''Field: space exploration / keywords: mars colonization risks {json}''"
        "InterestDiscovery_init
           (recorder (Inr \<lparr>output = ''Is Mars colonization doomed?'',
                            LmGentxtResult.input_tokens = - 7,
                            LmGentxtResult.output_tokens = 0\<rparr>)) None"
        fresh
        "\<lparr>output = ''Is Mars colonization doomed?'',
          LmGentxtResult.input_tokens = - 7,
          LmGentxtResult.output_tokens = 0\<rparr>"]
  from given[THEN conjunct1]
    given[THEN conjunct2, THEN conjunct1, rule_format, OF scenario_rendered answered]
    scenario_rendered answered
  show ?thesis
    by (simp add: scenario_request_def)
qed

text \<open>
  C9 (scenario). The request of the scenario is what construction gives for
  \<^verbatim>\<open>field_of_topic = "space exploration"\<close>, \<^verbatim>\<open>keywords = "mars colonization risks"\<close>,
  \<^verbatim>\<open>max_tokens = 4000\<close>, \<^verbatim>\<open>temperature = 0.7\<close>. Against any model whose blocking operation
  answers with the scenario's response, and with any template that is text with the two
  slots, \<^verbatim>\<open>discover\<close> returns exactly the scenario's result.
\<close>

theorem scenario:
  assumes "INTEREST_DISCOVERY_PROMPT_TEMPLATE P = template_text ps"
    and "\<And>q s. fst (gentxt (model self) q s) = Inr scenario_response"
  shows "InterestDiscoveryParams_init (Some ''space exploration'')
           (Some ''mars colonization risks'') (Some (Some 4000)) (Some 0.7)
         = Inr scenario_request
       \<and> fst (discover P self scenario_request w0)
         = Inr \<lparr>InterestDiscoveryResult.field_of_topic = ''space exploration'',
                InterestDiscoveryResult.keywords = ''mars colonization risks'',
                interest_analysis = ''Is Mars colonization doomed?'',
                InterestDiscoveryResult.input_tokens = 120,
                InterestDiscoveryResult.output_tokens = 45\<rparr>"
proof -
  have rendered: "format (INTEREST_DISCOVERY_PROMPT_TEMPLATE P)
             (InterestDiscoveryParams.field_of_topic scenario_request)
             (InterestDiscoveryParams.keywords scenario_request)
          = Inr (fill ps (InterestDiscoveryParams.field_of_topic scenario_request)
                   (InterestDiscoveryParams.keywords scenario_request))"
    unfolding assms(1) by (rule format_template_text)
  have "InterestDiscoveryParams_init (Some ''space exploration'')
           (Some ''mars colonization risks'') (Some (Some 4000)) (Some 0.7)
         = Inr scenario_request"
    by (simp add: InterestDiscoveryParams_init_def scenario_request_def)
  moreover have "fst (discover P self scenario_request w0)
         = Inr \<lparr>InterestDiscoveryResult.field_of_topic = ''space exploration'',
                InterestDiscoveryResult.keywords = ''mars colonization risks'',
                interest_analysis = ''Is Mars colonization doomed?'',
                InterestDiscoveryResult.input_tokens = 120,
                InterestDiscoveryResult.output_tokens = 45\<rparr>"
    by (simp add: discover_outcome[OF rendered] assms(2))
       (simp add: scenario_request_def scenario_response_def)
  ultimately show ?thesis by blast
qed

theorem scenario_witness:
  "INTEREST_DISCOVERY_PROMPT_TEMPLATE example_prompts = template_text example_pieces
   \<and> (\<forall>q s. fst (gentxt (recorder (Inr scenario_response)) q s) = Inr scenario_response)
   \<and> fst (discover example_prompts
          (InterestDiscovery_init (recorder (Inr scenario_response)) None)
          scenario_request fresh)
     = Inr \<lparr>InterestDiscoveryResult.field_of_topic = ''space exploration'',
            InterestDiscoveryResult.keywords = ''mars colonization risks'',
            interest_analysis = ''Is Mars colonization doomed?'',
            InterestDiscoveryResult.input_tokens = 120,
            InterestDiscoveryResult.output_tokens = 45\<rparr>"
proof -
  have stub: "fst (gentxt (model (InterestDiscovery_init (recorder (Inr scenario_response)) None))
                 q s) = Inr scenario_response" for q s
    by (simp add: InterestDiscovery_init_def recorder_sel)
  from scenario[OF example_template, of "InterestDiscovery_init (recorder (Inr scenario_response)) None",
      OF stub, of fresh] example_template
  show ?thesis
    by (simp add: recorder_sel)
qed

text \<open>
  C10 (no validation of the two strings). For all strings \<open>f\<close> and \<open>k\<close>, the empty ones
  included, the request is constructed, and with a template that is text with the two
  slots the outcome of \<^verbatim>\<open>discover\<close> (and of \<^verbatim>\<open>adiscover\<close>) is the outcome of the model on the
  request whose prompt holds \<open>f\<close> and \<open>k\<close> in the slots: the model's exception if it raises,
  and otherwise a result that echoes \<open>f\<close> and \<open>k\<close>. No exception originates in the method.
\<close>

theorem no_local_validation:
  assumes "INTEREST_DISCOVERY_PROMPT_TEMPLATE P = template_text ps"
  shows "\<exists>params.
           InterestDiscoveryParams_init (Some f) (Some k) a_max_tokens a_temperature = Inr params
           \<and> InterestDiscoveryParams.field_of_topic params = f
           \<and> InterestDiscoveryParams.keywords params = k
           \<and> fst (discover P self params w0) =
               (case fst (gentxt (model self)
                            \<lparr>system_prompt = INTEREST_DISCOVERY_SYSTEM_PROMPT P,
                             prompt = fill ps f k,
                             max_new_tokens = max_tokens params,
                             LmGentxtParams.temperature =
                               InterestDiscoveryParams.temperature params\<rparr>
                            (model_state w0)) of
                  Inl e \<Rightarrow> Inl e
                | Inr llm_result \<Rightarrow>
                    Inr \<lparr>InterestDiscoveryResult.field_of_topic = f,
                         InterestDiscoveryResult.keywords = k,
                         interest_analysis = output llm_result,
                         InterestDiscoveryResult.input_tokens =
                           LmGentxtResult.input_tokens llm_result,
                         InterestDiscoveryResult.output_tokens =
                           LmGentxtResult.output_tokens llm_result\<rparr>)
           \<and> fst (adiscover P self params w0) =
               (case fst (agentxt (model self)
                            \<lparr>system_prompt = INTEREST_DISCOVERY_SYSTEM_PROMPT P,
                             prompt = fill ps f k,
                             max_new_tokens = max_tokens params,
                             LmGentxtParams.temperature =
                               InterestDiscoveryParams.temperature params\<rparr>
                            (model_state w0)) of
                  Inl e \<Rightarrow> Inl e
                | Inr llm_result \<Rightarrow>
                    Inr \<lparr>InterestDiscoveryResult.field_of_topic = f,
                         InterestDiscoveryResult.keywords = k,
                         interest_analysis = output llm_result,
                         InterestDiscoveryResult.input_tokens =
                           LmGentxtResult.input_tokens llm_result,
                         InterestDiscoveryResult.output_tokens =
                           LmGentxtResult.output_tokens llm_result\<rparr>)"
proof -
  define params where "params =
    \<lparr>InterestDiscoveryParams.field_of_topic = f,
     InterestDiscoveryParams.keywords = k,
     max_tokens = (case a_max_tokens of None \<Rightarrow> Some 4000 | Some m \<Rightarrow> m),
     InterestDiscoveryParams.temperature = (case a_temperature of None \<Rightarrow> 0.7 | Some t \<Rightarrow> t)\<rparr>"
  have built: "InterestDiscoveryParams_init (Some f) (Some k) a_max_tokens a_temperature
                 = Inr params"
    by (simp add: InterestDiscoveryParams_init_def params_def)
  have strings: "InterestDiscoveryParams.field_of_topic params = f"
    "InterestDiscoveryParams.keywords params = k"
    by (simp_all add: params_def)
  have rendered: "format (INTEREST_DISCOVERY_PROMPT_TEMPLATE P)
             (InterestDiscoveryParams.field_of_topic params)
             (InterestDiscoveryParams.keywords params) = Inr (fill ps f k)"
    unfolding assms strings by (rule format_template_text)
  from built strings
    discover_outcome[OF rendered, of self w0, unfolded strings]
    adiscover_outcome[OF rendered, of self w0, unfolded strings]
  show ?thesis
    by (intro exI[of _ params]) simp
qed

theorem no_local_validation_witness:
  "INTEREST_DISCOVERY_PROMPT_TEMPLATE example_prompts = template_text example_pieces
   \<and> InterestDiscoveryParams_init (Some []) (Some []) None None = Inr empty_request
   \<and> fst (discover example_prompts
          (InterestDiscovery_init (recorder (Inr scenario_response)) None) empty_request fresh)
     = Inr \<lparr>InterestDiscoveryResult.field_of_topic = [],
            InterestDiscoveryResult.keywords = [],
            interest_analysis = ''Is Mars colonization doomed?'',
            InterestDiscoveryResult.input_tokens = 120,
            InterestDiscoveryResult.output_tokens = 45\<rparr>
   \<and> fst (adiscover example_prompts
          (InterestDiscovery_init (recorder (Inr scenario_response)) None) empty_request fresh)
     = Inr \<lparr>InterestDiscoveryResult.field_of_topic = [],
            InterestDiscoveryResult.keywords = [],
            interest_analysis = ''Is Mars colonization doomed?'',
            InterestDiscoveryResult.input_tokens = 120,
            InterestDiscoveryResult.output_tokens = 45\<rparr>"
proof -
  have built: "InterestDiscoveryParams_init (Some []) (Some []) None None = Inr empty_request"
    by (simp add: InterestDiscoveryParams_init_def empty_request_def)
  from no_local_validation
    [OF example_template,
     of "[]" "[]" None None "InterestDiscovery_init (recorder (Inr scenario_response)) None"
        fresh]
    built example_template
  show ?thesis
    by (auto simp: InterestDiscovery_init_def recorder_sel scenario_response_def)
qed

end
